theory Spec2Isabelle
  imports Complex_Main
begin

section \<open>Numbers and errors\<close>

text \<open>
  The clock computes with Python floats. They are idealised here as real numbers:
  rounding, infinities and NaN are outside the model. Integers are Python's unbounded
  ints. The operations of the source that can raise return a sum, \<open>Inl\<close> the exception.
\<close>

datatype error = ZeroDivisionError | ValueError

definition py_truediv :: "real \<Rightarrow> real \<Rightarrow> error + real" where
  \<comment> \<open>\<open>x / y\<close>\<close>
  "py_truediv x y = (if y = 0 then Inl ZeroDivisionError else Inr (x / y))"

definition py_floordiv :: "real \<Rightarrow> real \<Rightarrow> error + real" where
  \<comment> \<open>\<open>x // y\<close> on floats: the floor of the quotient, still a float\<close>
  "py_floordiv x y = (if y = 0 then Inl ZeroDivisionError else Inr (of_int \<lfloor>x / y\<rfloor>))"

definition py_mod :: "real \<Rightarrow> real \<Rightarrow> error + real" where
  \<comment> \<open>\<open>x % y\<close> on floats: the remainder has the sign of the divisor\<close>
  "py_mod x y = (if y = 0 then Inl ZeroDivisionError else Inr (x - y * of_int \<lfloor>x / y\<rfloor>))"

definition py_int :: "real \<Rightarrow> int" where
  \<comment> \<open>\<open>int(x)\<close> on a float truncates towards zero\<close>
  "py_int x = (if 0 \<le> x then \<lfloor>x\<rfloor> else \<lceil>x\<rceil>)"

section \<open>Configuration and defaults\<close>

definition TERMINA_HOURS_PER_DAY :: real where
  "TERMINA_HOURS_PER_DAY = 24"

definition TERMINA_TOTAL_HOURS :: real where
  "TERMINA_TOTAL_HOURS = 72"

definition AUDIO_HOUR :: string where
  "AUDIO_HOUR = ''hour.mp3''"

definition AUDIO_FINAL :: string where
  "AUDIO_FINAL = ''final.mp3''"

definition AUDIO_BELLS :: string where
  "AUDIO_BELLS = ''bells.mp3''"

definition REAL_SECONDS_72MIN :: int where
  "REAL_SECONDS_72MIN = 72 * 60"

definition REAL_SECONDS_24HR :: int where
  "REAL_SECONDS_24HR = 24 * 60 * 60"

text \<open>
  The module's global variables: the settings, the epoch, and the three variables of the
  main loop (\<open>last_hour_int\<close>, \<open>final_music_playing\<close>, \<open>bells_playing\<close>).
\<close>

record globals =
  cycle_mode :: string
  mute_hour :: bool
  mute_final :: bool
  debug_mode :: bool
  debug_time_offset :: real
  show_seconds :: bool
  dark_mode :: bool
  epoch_end_timestamp :: real
  last_hour_int :: int
  final_music_playing :: bool
  bells_playing :: bool

definition initial_globals :: "real \<Rightarrow> globals" where
  \<comment> \<open>the values at launch; the argument is \<open>time.time()\<close> when the module is loaded\<close>
  "initial_globals launch =
     \<lparr>cycle_mode = ''72min'', mute_hour = False, mute_final = False, debug_mode = False,
      debug_time_offset = 0, show_seconds = False, dark_mode = False,
      epoch_end_timestamp = launch + of_int REAL_SECONDS_72MIN,
      last_hour_int = - 1, final_music_playing = False, bells_playing = False\<rparr>"

section \<open>Audio\<close>

text \<open>
  What reaches the mixer. A failure inside pygame is caught and printed by the source and
  is not modelled.
\<close>

datatype mixer_op = MusicLoad string | MusicPlay | MusicStop

definition play_sound :: "string \<Rightarrow> bool \<Rightarrow> mixer_op list" where
  "play_sound file muted = (if muted then [] else [MusicLoad file, MusicPlay])"

definition stop_sound :: "mixer_op list" where
  "stop_sound = [MusicStop]"

text \<open>The calls the main loop makes, in order, with their arguments.\<close>

datatype audio_call = StopSound | PlaySound string bool

fun run_call :: "audio_call \<Rightarrow> mixer_op list" where
  "run_call StopSound = stop_sound"
| "run_call (PlaySound file muted) = play_sound file muted"

section \<open>Termina time engine\<close>

definition set_epoch_end :: "real \<Rightarrow> globals \<Rightarrow> globals" where
  "set_epoch_end real_timestamp g = g\<lparr>epoch_end_timestamp := real_timestamp\<rparr>"

definition get_cycle_length_seconds :: "globals \<Rightarrow> int" where
  "get_cycle_length_seconds g =
     (if cycle_mode g = ''72min'' then REAL_SECONDS_72MIN else REAL_SECONDS_24HR)"

definition advance_debug_time :: "real \<Rightarrow> globals \<Rightarrow> globals" where
  "advance_debug_time seconds g = g\<lparr>debug_time_offset := debug_time_offset g + seconds\<rparr>"

definition reset_debug_time :: "globals \<Rightarrow> globals" where
  "reset_debug_time g = g\<lparr>debug_time_offset := 0\<rparr>"

definition set_debug_time_offset :: "real \<Rightarrow> globals \<Rightarrow> globals" where
  "set_debug_time_offset seconds g = g\<lparr>debug_time_offset := seconds\<rparr>"

text \<open>The tuple \<open>(day, hour, total_hours, seconds_remaining)\<close> that \<open>get_termina_state\<close> returns.\<close>

record termina_state =
  day :: int
  hour :: real
  total_hours :: real
  seconds_remaining :: real

definition cycle_progress :: "real \<Rightarrow> real \<Rightarrow> error + real" where
  \<comment> \<open>the progress through the cycle, from the clamped remaining seconds and the cycle length\<close>
  "cycle_progress remaining cycle_real_seconds =
     (if cycle_real_seconds \<le> 0 then Inr 1
      else case py_truediv remaining cycle_real_seconds of
             Inl e \<Rightarrow> Inl e
           | Inr q \<Rightarrow>
               (let progress = 1 - q;
                    progress = (if progress < 0 then 0 else progress);
                    progress = (if progress > 1 then 1 else progress)
                in Inr progress))"

definition termina_state_of :: "real \<Rightarrow> real \<Rightarrow> real \<Rightarrow> real \<Rightarrow> error + termina_state" where
  \<comment> \<open>the body of \<open>get_termina_state\<close>, as a function of \<open>time.time()\<close>, the epoch, the cycle
      length and the debug offset\<close>
  "termina_state_of clock epoch_end cycle_real_seconds offset =
     (let now = clock + offset;
          remaining = epoch_end - now;
          remaining = (if remaining < 0 then 0 else remaining)
      in case cycle_progress remaining cycle_real_seconds of
           Inl e \<Rightarrow> Inl e
         | Inr progress \<Rightarrow>
             (let total = progress * TERMINA_TOTAL_HOURS
              in case py_floordiv total TERMINA_HOURS_PER_DAY of
                   Inl e \<Rightarrow> Inl e
                 | Inr whole_days \<Rightarrow>
                     (let d = py_int whole_days + 1;
                          d = (if d > 3 then 3 else d)
                      in case py_mod total TERMINA_HOURS_PER_DAY of
                           Inl e \<Rightarrow> Inl e
                         | Inr h \<Rightarrow>
                             Inr \<lparr>day = d, hour = h, total_hours = total,
                                  seconds_remaining = remaining\<rparr>)))"

definition get_termina_state :: "real \<Rightarrow> globals \<Rightarrow> error + termina_state" where
  \<comment> \<open>the first argument is what \<open>time.time()\<close> returns\<close>
  "get_termina_state clock g =
     termina_state_of clock (epoch_end_timestamp g) (of_int (get_cycle_length_seconds g))
       (debug_time_offset g)"

section \<open>Text formatting\<close>

text \<open>
  The pieces of Python's string formatting that the label uses. Strings are lists of
  code points below 256.
\<close>

fun str_nat :: "nat \<Rightarrow> string" where
  "str_nat n =
     (if n < 10 then [''0123456789'' ! n]
      else str_nat (n div 10) @ [''0123456789'' ! (n mod 10)])"

declare str_nat.simps [simp del]

definition str_int :: "int \<Rightarrow> string" where
  \<comment> \<open>\<open>{n}\<close>\<close>
  "str_int n = (if n < 0 then ''-'' @ str_nat (nat (- n)) else str_nat (nat n))"

definition format_0d :: "nat \<Rightarrow> int \<Rightarrow> string" where
  \<comment> \<open>\<open>{n:0wd}\<close>: zero padded to width \<open>w\<close>, the sign first\<close>
  "format_0d w n =
     (let ds = str_nat (nat \<bar>n\<bar>);
          sign = (if n < 0 then ''-'' else [])
      in sign @ replicate (w - length sign - length ds) (CHR ''0'') @ ds)"

definition round_half_even :: "real \<Rightarrow> int" where
  "round_half_even x =
     (let f = \<lfloor>x\<rfloor>; r = x - of_int f
      in if r < 1 / 2 then f else if 1 / 2 < r then f + 1 else if even f then f else f + 1)"

definition format_1f :: "real \<Rightarrow> string" where
  \<comment> \<open>\<open>{x:.1f}\<close>, on the real value\<close>
  "format_1f x =
     (let t = nat (round_half_even (\<bar>x\<bar> * 10))
      in (if x < 0 then ''-'' else []) @ str_nat (t div 10) @ ''.'' @ str_nat (t mod 10))"

definition newline :: string where
  "newline = [CHR 0x0A]"

section \<open>Main loop\<close>

definition debug_info_of :: "globals \<Rightarrow> real \<Rightarrow> string" where
  "debug_info_of g remaining =
     (if debug_mode g then
        (let info = newline @ ''[DEBUG] Offset: '' @ format_1f (debug_time_offset g) @ ''s''
         in if remaining > 0
            then info @ newline @ ''[DEBUG] Real remaining: '' @ format_1f remaining @ ''s''
            else info)
      else [])"

definition final_night_block :: "termina_state \<Rightarrow> globals \<Rightarrow> globals \<times> audio_call list" where
  \<comment> \<open>final night music: day 3 from 18:00, but not in the last five minutes\<close>
  "final_night_block st g =
     (if seconds_remaining st > 300 then
        (if day st = 3 \<and> hour st \<ge> 18 \<and> \<not> final_music_playing g then
           (g\<lparr>final_music_playing := True, bells_playing := False\<rparr>,
            [StopSound, PlaySound AUDIO_FINAL (mute_final g)])
         else (g, []))
      else (g\<lparr>final_music_playing := False\<rparr>, []))"

definition countdown_text :: "termina_state \<Rightarrow> string \<Rightarrow> string" where
  "countdown_text st debug_info =
     (let whole_sec = py_int (seconds_remaining st);
          ms = py_int ((seconds_remaining st - of_int whole_sec) * 1000)
      in ''FINAL HOURS'' @ newline @ format_0d 2 whole_sec @ ''.'' @ format_0d 3 ms
           @ '' seconds remain'' @ debug_info)"

definition normal_text :: "termina_state \<Rightarrow> int \<Rightarrow> string \<Rightarrow> globals \<Rightarrow> error + string" where
  "normal_text st hour_int debug_info g =
     (if show_seconds g then
        (case py_mod (hour st) 1 of
           Inl e \<Rightarrow> Inl e
         | Inr hour_fraction \<Rightarrow>
             (let display_seconds = py_int (hour_fraction * 60)
              in Inr (''Day '' @ str_int (day st) @ newline @ format_0d 2 hour_int @ '':''
                        @ format_0d 2 display_seconds @ '' Termina'' @ debug_info)))
      else Inr (''Day '' @ str_int (day st) @ newline @ format_0d 2 hour_int
                  @ '':00 Termina'' @ debug_info))"

definition countdown_block ::
  "termina_state \<Rightarrow> int \<Rightarrow> string \<Rightarrow> globals \<Rightarrow> error + globals \<times> audio_call list \<times> string" where
  \<comment> \<open>the last five real minutes, and otherwise the day/night chime and the normal display\<close>
  "countdown_block st hour_int debug_info g =
     (if 0 < seconds_remaining st \<and> seconds_remaining st \<le> 300 then
        (if \<not> bells_playing g then
           Inr (g\<lparr>bells_playing := True\<rparr>, [StopSound, PlaySound AUDIO_BELLS (mute_final g)],
                countdown_text st debug_info)
         else Inr (g, [], countdown_text st debug_info))
      else
        (let g1 = g\<lparr>bells_playing := False\<rparr>;
             chime = (if hour_int \<noteq> last_hour_int g1 then
                        (if hour_int = 6 \<or> hour_int = 18
                         then [PlaySound AUDIO_HOUR (mute_hour g1)] else [])
                      else []);
             g2 = g1\<lparr>last_hour_int := hour_int\<rparr>
         in case normal_text st hour_int debug_info g2 of
              Inl e \<Rightarrow> Inl e
            | Inr txt \<Rightarrow> Inr (g2, chime, txt)))"

definition reset_block ::
  "termina_state \<Rightarrow> string \<Rightarrow> string \<Rightarrow> globals \<Rightarrow> globals \<times> audio_call list \<times> string" where
  \<comment> \<open>the cycle has ended; the third argument is the label text set so far\<close>
  "reset_block st debug_info txt g =
     (if seconds_remaining st \<le> 0 then
        (g\<lparr>final_music_playing := False, bells_playing := False\<rparr>, [StopSound],
         ''DAWN OF A NEW DAY'' @ debug_info)
      else (g, [], txt))"

text \<open>
  What one run of \<open>update_clock\<close> leaves behind: the globals, the text of the label, and
  the audio calls it made, in order.
\<close>

record tick_result =
  globals_after :: globals
  label_text :: string
  audio_calls :: "audio_call list"

definition cue_tick :: "termina_state \<Rightarrow> globals \<Rightarrow> error + tick_result" where
  \<comment> \<open>\<open>update_clock\<close> after its call of \<open>get_termina_state\<close>\<close>
  "cue_tick st g =
     (let hour_int = py_int (hour st);
          debug_info = debug_info_of g (seconds_remaining st);
          (g1, calls1) = final_night_block st g
      in case countdown_block st hour_int debug_info g1 of
           Inl e \<Rightarrow> Inl e
         | Inr (g2, calls2, txt2) \<Rightarrow>
             (let (g3, calls3, txt3) = reset_block st debug_info txt2 g2
              in Inr \<lparr>globals_after = g3, label_text = txt3,
                      audio_calls = calls1 @ calls2 @ calls3\<rparr>))"

definition update_clock :: "real \<Rightarrow> globals \<Rightarrow> error + tick_result" where
  \<comment> \<open>one tick; the first argument is what \<open>time.time()\<close> returns during it\<close>
  "update_clock clock g =
     (case get_termina_state clock g of
        Inl e \<Rightarrow> Inl e
      | Inr st \<Rightarrow> cue_tick st g)"

text \<open>
  The loop reschedules itself every 50 ms. A finite run of it is given by the clock
  readings of its ticks; it returns the globals after the last tick and the result of each.
\<close>

fun run_clock :: "real list \<Rightarrow> globals \<Rightarrow> error + globals \<times> tick_result list" where
  "run_clock [] g = Inr (g, [])"
| "run_clock (clock # clocks) g =
     (case update_clock clock g of
        Inl e \<Rightarrow> Inl e
      | Inr r \<Rightarrow>
          (case run_clock clocks (globals_after r) of
             Inl e \<Rightarrow> Inl e
           | Inr (g', rs) \<Rightarrow> Inr (g', r # rs)))"

section \<open>Settings window\<close>

text \<open>
  \<open>save_settings\<close> reads the widgets of the settings window. The record holds what they
  contain when Save is pressed.
\<close>

record settings_form =
  epoch_entry :: string
  cycle_var :: string
  hour_var :: bool
  final_var :: bool
  seconds_var :: bool
  dark_var :: bool
  debug_var :: bool
  debug_offset_entry :: string

text \<open>
  What \<open>save_settings\<close> takes from Python's library and from the system clock:
  \<open>int(s)\<close> and \<open>float(s)\<close> (\<open>None\<close> where they raise \<open>ValueError\<close>), \<open>time.time()\<close>, and
  the timestamp of \<open>now.replace(hour=hh, minute=mm, second=0, microsecond=0)\<close> moved
  forward by a number of days. The date arithmetic is taken to succeed, so the handler
  for exceptions other than \<open>ValueError\<close> has no branch here.
\<close>

record environment =
  int_of_str :: "string \<Rightarrow> int option"
  float_of_str :: "string \<Rightarrow> real option"
  time_now :: real
  local_timestamp :: "nat \<Rightarrow> int \<Rightarrow> int \<Rightarrow> real"

text \<open>
  The lines \<open>save_settings\<close> prints, without their wording. \<open>OffsetSet\<close> is the line
  printed inside \<open>set_debug_time_offset\<close>.
\<close>

datatype log_line =
    Day3WillEndAt real
  | Day1StartedAt real
  | InvalidTimeFormat string
  | OffsetSet real
  | OffsetSetTo real
  | InvalidDebugOffset string

definition is_space :: "char \<Rightarrow> bool" where
  \<comment> \<open>the code points below 256 that \<open>str.strip()\<close> removes\<close>
  "is_space c = (of_char c \<in> {9, 10, 11, 12, 13, 28, 29, 30, 31, 32, 133, 160 :: nat})"

definition py_strip :: "string \<Rightarrow> string" where
  "py_strip s = rev (dropWhile is_space (rev (dropWhile is_space s)))"

fun split_on :: "char \<Rightarrow> string \<Rightarrow> string list" where
  "split_on sep [] = [[]]"
| "split_on sep (c # cs) =
     (if c = sep then [] # split_on sep cs
      else (case split_on sep cs of
              [] \<Rightarrow> [[c]]
            | part # parts \<Rightarrow> (c # part) # parts))"

definition parse_hh_mm :: "(string \<Rightarrow> int option) \<Rightarrow> string \<Rightarrow> error + int \<times> int" where
  \<comment> \<open>the parsing and the range check of the epoch entry; every failure is a \<open>ValueError\<close>\<close>
  "parse_hh_mm to_int t =
     (case (if CHR '':'' \<in> set t then
              (case map to_int (split_on (CHR '':'') t) of
                 [Some hh, Some mm] \<Rightarrow> Inr (hh, mm)
               | _ \<Rightarrow> Inl ValueError)
            else (case to_int t of
                    Some hh \<Rightarrow> Inr (hh, 0)
                  | None \<Rightarrow> Inl ValueError)) of
        Inl e \<Rightarrow> Inl e
      | Inr (hh, mm) \<Rightarrow>
          (if \<not> (0 \<le> hh \<and> hh \<le> 23 \<and> 0 \<le> mm \<and> mm \<le> 59) then Inl ValueError
           else Inr (hh, mm)))"

definition save_epoch_entry :: "environment \<Rightarrow> string \<Rightarrow> globals \<Rightarrow> globals \<times> log_line list" where
  \<comment> \<open>the epoch part of \<open>save_settings\<close>; the string is the entry, stripped\<close>
  "save_epoch_entry env t g =
     (if t \<noteq> [] then
        (case parse_hh_mm (int_of_str env) t of
           Inl e \<Rightarrow> (g, [InvalidTimeFormat t])
         | Inr (hh, mm) \<Rightarrow>
             (let target_day3_end = local_timestamp env 0 hh mm;
                  target_day3_end =
                    (if target_day3_end \<le> time_now env then local_timestamp env 1 hh mm
                     else target_day3_end);
                  cycle_length = get_cycle_length_seconds g;
                  day1_start = target_day3_end - of_int cycle_length
              in (set_epoch_end target_day3_end g,
                  [Day3WillEndAt target_day3_end, Day1StartedAt day1_start])))
      else (g, []))"

definition save_debug_offset :: "environment \<Rightarrow> string \<Rightarrow> globals \<Rightarrow> globals \<times> log_line list" where
  \<comment> \<open>the debug offset part of \<open>save_settings\<close>; the string is the entry, stripped\<close>
  "save_debug_offset env debug_offset_str g =
     (if debug_offset_str \<noteq> [] then
        (case float_of_str env debug_offset_str of
           Some offset \<Rightarrow> (set_debug_time_offset offset g, [OffsetSet offset, OffsetSetTo offset])
         | None \<Rightarrow> (g, [InvalidDebugOffset debug_offset_str]))
      else (g, []))"

definition save_settings :: "environment \<Rightarrow> settings_form \<Rightarrow> globals \<Rightarrow> globals \<times> log_line list" where
  \<comment> \<open>\<open>apply_theme\<close> and \<open>settings.destroy\<close> only touch widgets and are left out\<close>
  "save_settings env form g =
     (let g1 = g\<lparr>mute_hour := hour_var form, mute_final := final_var form,
                 debug_mode := debug_var form, show_seconds := seconds_var form,
                 dark_mode := dark_var form\<rparr>;
          g2 = g1\<lparr>cycle_mode := cycle_var form\<rparr>;
          (g3, log1) = save_epoch_entry env (py_strip (epoch_entry form)) g2;
          (g4, log2) = save_debug_offset env (py_strip (debug_offset_entry form)) g3
      in (g4, log1 @ log2))"

section \<open>Notions used to state the properties\<close>

text \<open>The four cue states, as the specification names them, as conditions on a state.\<close>

definition spec_Reset :: "termina_state \<Rightarrow> bool" where
  "spec_Reset st = (seconds_remaining st \<le> 0)"

definition spec_FinalCountdown :: "termina_state \<Rightarrow> bool" where
  "spec_FinalCountdown st = (0 < seconds_remaining st \<and> seconds_remaining st \<le> 300)"

definition spec_FinalNight :: "termina_state \<Rightarrow> bool" where
  "spec_FinalNight st = (seconds_remaining st > 300 \<and> day st = 3 \<and> hour st \<ge> 18)"

definition spec_Normal :: "termina_state \<Rightarrow> bool" where
  "spec_Normal st = (\<not> spec_Reset st \<and> \<not> spec_FinalCountdown st \<and> \<not> spec_FinalNight st)"

text \<open>Whether a call starts a given track, the number of such calls, and a call without its mute flag.\<close>

fun starts :: "string \<Rightarrow> audio_call \<Rightarrow> bool" where
  "starts file StopSound = False"
| "starts file (PlaySound file' muted) = (file' = file)"

definition count_starts :: "string \<Rightarrow> audio_call list \<Rightarrow> nat" where
  "count_starts file calls = length (filter (starts file) calls)"

fun unmuted :: "audio_call \<Rightarrow> audio_call" where
  "unmuted StopSound = StopSound"
| "unmuted (PlaySound file muted) = PlaySound file False"

text \<open>A parser of plain decimal numerals, a fragment of \<open>int(s)\<close>, for concrete runs of \<open>save_settings\<close>.\<close>

fun digits_value :: "nat \<Rightarrow> string \<Rightarrow> nat option" where
  "digits_value acc [] = Some acc"
| "digits_value acc (c # cs) =
     (if 48 \<le> (of_char c :: nat) \<and> (of_char c :: nat) \<le> 57
      then digits_value (10 * acc + (of_char c - 48)) cs else None)"

definition decimal_int :: "string \<Rightarrow> int option" where
  "decimal_int s = (if s = [] then None else map_option int (digits_value 0 s))"

text \<open>
  An environment for concrete runs of \<open>save_settings\<close>: the decimal parser for both entries,
  the clock at 1000, and local midnight at timestamp 0.
\<close>

definition decimal_float :: "string \<Rightarrow> real option" where
  "decimal_float s = map_option of_int (decimal_int s)"

definition demo_timestamp :: "nat \<Rightarrow> int \<Rightarrow> int \<Rightarrow> real" where
  "demo_timestamp days hh mm = of_nat days * 86400 + of_int hh * 3600 + of_int mm * 60"

definition demo_env :: environment where
  "demo_env = \<lparr>int_of_str = decimal_int, float_of_str = decimal_float, time_now = 1000,
               local_timestamp = demo_timestamp\<rparr>"

text \<open>
  The audio calls and the label of one tick in closed form; \<open>cue_tick_value\<close> below proves
  that they are what \<open>cue_tick\<close> computes.
\<close>

definition tick_calls :: "termina_state \<Rightarrow> globals \<Rightarrow> audio_call list" where
  "tick_calls st g =
     (if seconds_remaining st > 300 \<and> day st = 3 \<and> hour st \<ge> 18 \<and> \<not> final_music_playing g
      then [StopSound, PlaySound AUDIO_FINAL (mute_final g)] else [])
     @ (if 0 < seconds_remaining st \<and> seconds_remaining st \<le> 300
        then (if bells_playing g then [] else [StopSound, PlaySound AUDIO_BELLS (mute_final g)])
        else (if py_int (hour st) \<noteq> last_hour_int g \<and> (py_int (hour st) = 6 \<or> py_int (hour st) = 18)
              then [PlaySound AUDIO_HOUR (mute_hour g)] else []))
     @ (if seconds_remaining st \<le> 0 then [StopSound] else [])"

definition tick_label :: "termina_state \<Rightarrow> globals \<Rightarrow> string" where
  "tick_label st g =
     (let debug_info = debug_info_of g (seconds_remaining st)
      in if seconds_remaining st \<le> 0 then ''DAWN OF A NEW DAY'' @ debug_info
         else if seconds_remaining st \<le> 300 then countdown_text st debug_info
         else if show_seconds g
           then ''Day '' @ str_int (day st) @ newline @ format_0d 2 (py_int (hour st)) @ '':''
                  @ format_0d 2 (py_int ((hour st - of_int \<lfloor>hour st\<rfloor>) * 60)) @ '' Termina''
                  @ debug_info
           else ''Day '' @ str_int (day st) @ newline @ format_0d 2 (py_int (hour st))
                  @ '':00 Termina'' @ debug_info)"

section \<open>The time engine: closed form and bounds\<close>

lemma py_int_of_int: "py_int (of_int k) = k"
  by (simp add: py_int_def)

lemma py_int_nonneg: "0 \<le> x \<Longrightarrow> py_int x = \<lfloor>x\<rfloor>"
  by (simp add: py_int_def)

lemma clamp_unit:
  fixes q :: real
  shows "(let progress = 1 - q;
              progress = (if progress < 0 then 0 else progress);
              progress = (if progress > 1 then 1 else progress)
          in (Inr progress :: error + real)) = Inr (max 0 (min 1 (1 - q)))"
  by (simp add: Let_def max_def min_def)

lemma cycle_progress_value:
  "cycle_progress r L = Inr (if L \<le> 0 then 1 else max 0 (min 1 (1 - r / L)))"
proof (cases "L \<le> 0")
  case True
  then show ?thesis by (simp add: cycle_progress_def)
next
  case False
  then have "py_truediv r L = Inr (r / L)" by (simp add: py_truediv_def)
  then show ?thesis
    using False unfolding cycle_progress_def by (simp only: clamp_unit sum.case if_False)
qed

lemma cycle_progress_total: "\<exists>p. cycle_progress r L = Inr p \<and> 0 \<le> p \<and> p \<le> 1"
  by (simp add: cycle_progress_value)

lemma clamp_day: "(if d > 3 then 3 else d) = min 3 (d :: int)"
  by arith

lemma termina_state_of_value:
  assumes "cycle_progress (max 0 (e - (c + off))) L = Inr p"
  shows "termina_state_of c e L off =
     Inr \<lparr>day = min 3 (\<lfloor>p * 72 / 24\<rfloor> + 1),
          hour = p * 72 - 24 * of_int \<lfloor>p * 72 / 24\<rfloor>,
          total_hours = p * 72,
          seconds_remaining = max 0 (e - (c + off))\<rparr>"
proof -
  have m: "(if e - (c + off) < 0 then 0 else e - (c + off)) = max 0 (e - (c + off))"
    by (simp add: max_def)
  have fd: "py_floordiv (p * 72) 24 = Inr (of_int \<lfloor>p * 72 / 24\<rfloor>)"
    by (simp add: py_floordiv_def)
  have md: "py_mod (p * 72) 24 = Inr (p * 72 - 24 * of_int \<lfloor>p * 72 / 24\<rfloor>)"
    by (simp add: py_mod_def)
  show ?thesis
    unfolding termina_state_of_def TERMINA_TOTAL_HOURS_def TERMINA_HOURS_PER_DAY_def
    by (simp only: Let_def m assms sum.case fd md py_int_of_int clamp_day)
qed

lemma hour_bounds:
  fixes t :: real
  shows "0 \<le> t - 24 * of_int \<lfloor>t / 24\<rfloor>" and "t - 24 * of_int \<lfloor>t / 24\<rfloor> < 24"
proof -
  have "of_int \<lfloor>t / 24\<rfloor> \<le> t / 24" by (rule of_int_floor_le)
  then show "0 \<le> t - 24 * of_int \<lfloor>t / 24\<rfloor>" by linarith
  have "t / 24 < of_int \<lfloor>t / 24\<rfloor> + 1" by linarith
  then show "t - 24 * of_int \<lfloor>t / 24\<rfloor> < 24" by linarith
qed

lemma day_range: "0 \<le> (k::int) \<Longrightarrow> min 3 (k + 1) \<in> {1, 2, 3}"
  by (simp add: min_def) arith

lemma termina_state_of_total: "\<exists>st. termina_state_of c e L off = Inr st"
  using cycle_progress_total[of "max 0 (e - (c + off))" L] termina_state_of_value by blast

lemma get_termina_state_total: "\<exists>st. get_termina_state c g = Inr st"
  unfolding get_termina_state_def by (rule termina_state_of_total)

lemma cycle_length_cases:
  "real_of_int (get_cycle_length_seconds g) = 4320 \<or> real_of_int (get_cycle_length_seconds g) = 86400"
  by (simp add: get_cycle_length_seconds_def REAL_SECONDS_72MIN_def REAL_SECONDS_24HR_def)

lemma state_basic:
  assumes "termina_state_of c e L off = Inr st"
  shows "0 \<le> seconds_remaining st" and "0 \<le> hour st" and "hour st < 24"
    and "seconds_remaining st = max 0 (e - (c + off))"
proof -
  obtain p where p: "cycle_progress (max 0 (e - (c + off))) L = Inr p"
    using cycle_progress_total by blast
  have st: "st = \<lparr>day = min 3 (\<lfloor>p * 72 / 24\<rfloor> + 1), hour = p * 72 - 24 * of_int \<lfloor>p * 72 / 24\<rfloor>,
          total_hours = p * 72, seconds_remaining = max 0 (e - (c + off))\<rparr>"
    using assms termina_state_of_value[OF p] by simp
  show "0 \<le> seconds_remaining st" "seconds_remaining st = max 0 (e - (c + off))"
    by (simp_all add: st)
  show "0 \<le> hour st" "hour st < 24"
    using hour_bounds[of "p * 72"] by (simp_all only: st termina_state.simps)
qed

lemma state_ended:
  assumes "0 < L" and "termina_state_of c e L off = Inr st" and "seconds_remaining st \<le> 0"
  shows "hour st = 0" and "day st = 3" and "total_hours st = 72"
proof -
  have r: "max 0 (e - (c + off)) = 0"
    using state_basic(4)[OF assms(2)] state_basic(1)[OF assms(2)] assms(3) by linarith
  have p: "cycle_progress (max 0 (e - (c + off))) L = Inr 1"
    using assms(1) by (simp add: cycle_progress_value r)
  have st: "st = \<lparr>day = min 3 (\<lfloor>1 * 72 / 24 :: real\<rfloor> + 1), hour = 1 * 72 - 24 * of_int \<lfloor>1 * 72 / 24 :: real\<rfloor>,
          total_hours = 1 * 72, seconds_remaining = max 0 (e - (c + off))\<rparr>"
    using assms(2) termina_state_of_value[OF p] by simp
  show "hour st = 0" "day st = 3" "total_hours st = 72"
    by (simp_all add: st)
qed

lemma state_window:
  assumes L: "L = 4320 \<or> L = 86400" and st: "termina_state_of c e L off = Inr st"
    and lo: "0 < seconds_remaining st" and hi: "seconds_remaining st \<le> 300"
  shows "19 \<le> hour st"
proof -
  define r where "r = max 0 (e - (c + off))"
  have r: "seconds_remaining st = r" unfolding r_def by (rule state_basic(4)[OF st])
  have Lpos: "0 < L" using L by auto
  have q: "0 < r / L" "r / L \<le> 5 / 72"
  proof -
    show "0 < r / L" using lo r Lpos by simp
    have "r / L \<le> 300 / L" using hi r Lpos by (simp add: divide_right_mono)
    also have "300 / L \<le> 5 / 72" using L by auto
    finally show "r / L \<le> 5 / 72" .
  qed
  define p where "p = 1 - r / L"
  have pb: "67 / 72 \<le> p" "p < 1" using q by (simp_all add: p_def)
  have "cycle_progress r L = Inr (max 0 (min 1 (1 - r / L)))"
    using Lpos by (simp add: cycle_progress_value)
  also have "max 0 (min 1 (1 - r / L)) = p" using pb by (simp add: p_def)
  finally have cp: "cycle_progress (max 0 (e - (c + off))) L = Inr p" by (simp only: r_def)
  have sv: "st = \<lparr>day = min 3 (\<lfloor>p * 72 / 24\<rfloor> + 1), hour = p * 72 - 24 * of_int \<lfloor>p * 72 / 24\<rfloor>,
          total_hours = p * 72, seconds_remaining = max 0 (e - (c + off))\<rparr>"
    using st termina_state_of_value[OF cp] by simp
  have fl: "\<lfloor>p * 72 / 24\<rfloor> = 2"
    using pb by (intro floor_unique) simp_all
  have "hour st = p * 72 - 48" by (simp only: sv termina_state.simps fl)
  then show ?thesis using pb by simp
qed

text \<open>
  C4. For every clock reading, epoch, cycle length and debug offset, the state that
  \<open>get_termina_state\<close> computes is returned and has its day among 1, 2, 3 and its hour at
  least 0 and below 24; the cycle length may be zero or negative.
\<close>

theorem C4_day_and_hour_range:
  "\<exists>st. termina_state_of now e L off = Inr st
        \<and> day st \<in> {1, 2, 3} \<and> 0 \<le> hour st \<and> hour st < 24"
proof -
  obtain p where p: "cycle_progress (max 0 (e - (now + off))) L = Inr p" and p0: "0 \<le> p"
    using cycle_progress_total by blast
  have "0 \<le> \<lfloor>p * 72 / 24\<rfloor>" using p0 by simp
  then have "min 3 (\<lfloor>p * 72 / 24\<rfloor> + 1) \<in> {1, 2, 3}" by (rule day_range)
  then show ?thesis
    using hour_bounds[of "p * 72"]
    by (simp only: termina_state_of_value[OF p] termina_state.simps sum.inject simp_thms ex_simps)
qed

text \<open>
  C5. With the epoch, the cycle length and the debug offset fixed, a later clock reading
  never gives more remaining seconds and never gives fewer total hours.
\<close>

theorem C5_monotone_in_now:
  assumes "now1 \<le> now2"
  shows "\<exists>s1 s2. termina_state_of now1 e L off = Inr s1 \<and> termina_state_of now2 e L off = Inr s2
           \<and> seconds_remaining s2 \<le> seconds_remaining s1 \<and> total_hours s1 \<le> total_hours s2"
proof -
  define r1 where "r1 = max 0 (e - (now1 + off))"
  define r2 where "r2 = max 0 (e - (now2 + off))"
  define p1 where "p1 = (if L \<le> 0 then 1 else max 0 (min 1 (1 - r1 / L)))"
  define p2 where "p2 = (if L \<le> 0 then 1 else max 0 (min 1 (1 - r2 / L)))"
  have r: "r2 \<le> r1" using assms by (simp add: r1_def r2_def max_def)
  have p: "p1 \<le> p2"
  proof (cases "L \<le> 0")
    case True
    then show ?thesis by (simp add: p1_def p2_def)
  next
    case False
    have mono: "\<And>q1 q2 :: real. q2 \<le> q1 \<Longrightarrow> max 0 (min 1 (1 - q1)) \<le> max 0 (min 1 (1 - q2))"
      by linarith
    from False have "r2 / L \<le> r1 / L" using r by (simp add: divide_right_mono)
    then have "max 0 (min 1 (1 - r1 / L)) \<le> max 0 (min 1 (1 - r2 / L))" by (rule mono)
    then show ?thesis using False by (simp only: p1_def p2_def if_False)
  qed
  have s1: "termina_state_of now1 e L off =
      Inr \<lparr>day = min 3 (\<lfloor>p1 * 72 / 24\<rfloor> + 1), hour = p1 * 72 - 24 * of_int \<lfloor>p1 * 72 / 24\<rfloor>,
           total_hours = p1 * 72, seconds_remaining = r1\<rparr>"
    unfolding r1_def p1_def by (rule termina_state_of_value) (simp only: cycle_progress_value)
  have s2: "termina_state_of now2 e L off =
      Inr \<lparr>day = min 3 (\<lfloor>p2 * 72 / 24\<rfloor> + 1), hour = p2 * 72 - 24 * of_int \<lfloor>p2 * 72 / 24\<rfloor>,
           total_hours = p2 * 72, seconds_remaining = r2\<rparr>"
    unfolding r2_def p2_def by (rule termina_state_of_value) (simp only: cycle_progress_value)
  show ?thesis using r p by (simp add: s1 s2)
qed

theorem C5_monotone_in_now_witness:
  "(100::real) \<le> 200 \<and> (\<exists>s1 s2. termina_state_of 100 4320 4320 0 = Inr s1 \<and> termina_state_of 200 4320 4320 0 = Inr s2
           \<and> seconds_remaining s2 \<le> seconds_remaining s1 \<and> total_hours s1 \<le> total_hours s2)"
  using C5_monotone_in_now[of 100 200 4320 4320 0] by simp

text \<open>
  C7. The computation of the state raises nothing, whatever the four numbers are: it
  always returns a state, whose remaining seconds are not negative; and a cycle length
  that is zero or negative gives progress 1 (72 total hours) without any division.
\<close>

theorem C7_total:
  "(\<exists>st. termina_state_of now e L off = Inr st \<and> 0 \<le> seconds_remaining st)
   \<and> (L \<le> 0 \<longrightarrow> cycle_progress (max 0 (e - (now + off))) L = Inr 1
        \<and> (\<exists>st. termina_state_of now e L off = Inr st \<and> total_hours st = 72))"
proof -
  obtain p where p: "cycle_progress (max 0 (e - (now + off))) L = Inr p"
    using cycle_progress_total by blast
  have "L \<le> 0 \<Longrightarrow> p = 1" using p by (simp add: cycle_progress_value)
  then show ?thesis by (auto simp: termina_state_of_value[OF p] p)
qed

theorem C7_total_witness:
  "(\<exists>st. termina_state_of 10 20 (- 5) 0 = Inr st \<and> 0 \<le> seconds_remaining st)
   \<and> (- 5 \<le> (0::real)) \<and> cycle_progress (max 0 (20 - (10 + 0))) (- 5) = Inr 1
        \<and> (\<exists>st. termina_state_of 10 20 (- 5) 0 = Inr st \<and> total_hours st = 72)"
  using C7_total[of 10 20 "- 5" 0] by simp


section \<open>One tick in closed form\<close>

lemma normal_text_value:
  "normal_text st h d g =
     Inr (if show_seconds g
          then ''Day '' @ str_int (day st) @ newline @ format_0d 2 h @ '':''
                 @ format_0d 2 (py_int ((hour st - of_int \<lfloor>hour st\<rfloor>) * 60)) @ '' Termina'' @ d
          else ''Day '' @ str_int (day st) @ newline @ format_0d 2 h @ '':00 Termina'' @ d)"
  by (simp add: normal_text_def py_mod_def Let_def)

lemma cue_tick_value:
  "cue_tick st g =
     Inr \<lparr>globals_after =
            g\<lparr>last_hour_int :=
                 (if 0 < seconds_remaining st \<and> seconds_remaining st \<le> 300
                  then last_hour_int g else py_int (hour st)),
              final_music_playing :=
                 (seconds_remaining st > 300
                  \<and> (final_music_playing g \<or> day st = 3 \<and> hour st \<ge> 18)),
              bells_playing := (0 < seconds_remaining st \<and> seconds_remaining st \<le> 300)\<rparr>,
          label_text = tick_label st g,
          audio_calls = tick_calls st g\<rparr>"
proof -
  consider (ended) "seconds_remaining st \<le> 0"
    | (window) "0 < seconds_remaining st" "seconds_remaining st \<le> 300"
    | (running) "300 < seconds_remaining st"
    by linarith
  then show ?thesis
  proof cases
    case ended
    then show ?thesis
      unfolding cue_tick_def final_night_block_def countdown_block_def reset_block_def
        tick_calls_def tick_label_def Let_def normal_text_value
      by (simp add: globals.equality)
  next
    case window
    then show ?thesis
      unfolding cue_tick_def final_night_block_def countdown_block_def reset_block_def
        tick_calls_def tick_label_def Let_def normal_text_value
      by (simp add: globals.equality)
  next
    case running
    then show ?thesis
      unfolding cue_tick_def final_night_block_def countdown_block_def reset_block_def
        tick_calls_def tick_label_def Let_def normal_text_value
      by (auto intro!: globals.equality)
  qed
qed

lemma update_clock_value:
  assumes "get_termina_state c g = Inr st"
  shows "update_clock c g =
     Inr \<lparr>globals_after =
            g\<lparr>last_hour_int :=
                 (if 0 < seconds_remaining st \<and> seconds_remaining st \<le> 300
                  then last_hour_int g else py_int (hour st)),
              final_music_playing :=
                 (seconds_remaining st > 300
                  \<and> (final_music_playing g \<or> day st = 3 \<and> hour st \<ge> 18)),
              bells_playing := (0 < seconds_remaining st \<and> seconds_remaining st \<le> 300)\<rparr>,
          label_text = tick_label st g,
          audio_calls = tick_calls st g\<rparr>"
  unfolding update_clock_def assms by (simp only: sum.case cue_tick_value)

lemma get_termina_state_cue_fields:
  "get_termina_state c (g\<lparr>last_hour_int := l, final_music_playing := f, bells_playing := b\<rparr>)
     = get_termina_state c g"
  by (simp add: get_termina_state_def get_cycle_length_seconds_def)

lemma get_termina_state_after:
  assumes "update_clock c g = Inr r"
  shows "get_termina_state c' (globals_after r) = get_termina_state c' g"
proof -
  obtain st where st: "get_termina_state c g = Inr st"
    using get_termina_state_total by blast
  show ?thesis
    using assms unfolding update_clock_value[OF st]
    by (auto simp: get_termina_state_cue_fields)
qed

lemma gstate_facts:
  assumes "get_termina_state c g = Inr st"
  shows "0 \<le> seconds_remaining st" and "0 \<le> hour st" and "hour st < 24"
    and "py_int (hour st) = \<lfloor>hour st\<rfloor>"
    and "seconds_remaining st \<le> 0 \<Longrightarrow> hour st = 0"
    and "0 < seconds_remaining st \<Longrightarrow> seconds_remaining st \<le> 300 \<Longrightarrow> 19 \<le> hour st"
proof -
  let ?L = "real_of_int (get_cycle_length_seconds g)"
  have st: "termina_state_of c (epoch_end_timestamp g) ?L (debug_time_offset g) = Inr st"
    using assms by (simp only: get_termina_state_def)
  have L: "?L = 4320 \<or> ?L = 86400" by (rule cycle_length_cases)
  then have Lpos: "0 < ?L" by auto
  show "0 \<le> seconds_remaining st" "0 \<le> hour st" "hour st < 24"
    by (rule state_basic[OF st])+
  then show "py_int (hour st) = \<lfloor>hour st\<rfloor>" by (simp add: py_int_def)
  show "seconds_remaining st \<le> 0 \<Longrightarrow> hour st = 0"
    by (rule state_ended(1)[OF Lpos st])
  show "0 < seconds_remaining st \<Longrightarrow> seconds_remaining st \<le> 300 \<Longrightarrow> 19 \<le> hour st"
    by (rule state_window[OF L st])
qed

lemma track_names_differ:
  "AUDIO_FINAL \<noteq> AUDIO_HOUR" "AUDIO_BELLS \<noteq> AUDIO_HOUR" "AUDIO_FINAL \<noteq> AUDIO_BELLS"
  "AUDIO_HOUR \<noteq> AUDIO_FINAL" "AUDIO_HOUR \<noteq> AUDIO_BELLS" "AUDIO_BELLS \<noteq> AUDIO_FINAL"
  by (simp_all add: AUDIO_FINAL_def AUDIO_HOUR_def AUDIO_BELLS_def)

lemma chime_count:
  assumes "get_termina_state c g = Inr st"
  shows "count_starts AUDIO_HOUR (tick_calls st g) =
           (if \<lfloor>hour st\<rfloor> \<noteq> last_hour_int g \<and> \<lfloor>hour st\<rfloor> \<in> {6, 18} then 1 else 0)"
proof -
  note f = gstate_facts[OF assms]
  consider (ended) "seconds_remaining st \<le> 0"
    | (window) "0 < seconds_remaining st" "seconds_remaining st \<le> 300"
    | (running) "300 < seconds_remaining st"
    by linarith
  then show ?thesis
  proof cases
    case ended
    then have "hour st = 0" by (rule f(5))
    then show ?thesis using ended
      by (simp add: tick_calls_def count_starts_def py_int_def)
  next
    case window
    then have "19 \<le> hour st" by (rule f(6))
    then have "19 \<le> \<lfloor>hour st\<rfloor>" by linarith
    then have "\<lfloor>hour st\<rfloor> \<noteq> 6" "\<lfloor>hour st\<rfloor> \<noteq> 18" by linarith+
    then show ?thesis using window
      by (simp add: tick_calls_def count_starts_def track_names_differ)
  next
    case running
    then show ?thesis
      by (simp add: tick_calls_def count_starts_def track_names_differ f(4))
  qed
qed

lemmas eval_defs = get_termina_state_def get_cycle_length_seconds_def initial_globals_def
  REAL_SECONDS_72MIN_def REAL_SECONDS_24HR_def termina_state_of_def cycle_progress_def
  py_truediv_def py_floordiv_def py_mod_def py_int_def TERMINA_TOTAL_HOURS_def
  TERMINA_HOURS_PER_DAY_def Let_def

section \<open>The cue states\<close>

text \<open>
  C1, as stated, fails. The claim says that exactly one of the four states performs its
  actions on a tick and that the day/night chime can be started only on a tick whose
  state is Normal. In the 72-minute cycle, 360 seconds before the end, the state is
  FinalNight (day 3, hour 18, more than 300 seconds left), and the first tick there starts
  the final night music and then the chime as well: the chime sits in the \<open>else\<close> branch of
  the countdown test, which also runs during the final night.
\<close>

theorem C1_counterexample:
  "get_termina_state 3960 (initial_globals 0)
     = Inr \<lparr>day = 3, hour = 18, total_hours = 66, seconds_remaining = 360\<rparr>
   \<and> spec_FinalNight \<lparr>day = 3, hour = 18, total_hours = 66, seconds_remaining = 360\<rparr>
   \<and> \<not> spec_Normal \<lparr>day = 3, hour = 18, total_hours = 66, seconds_remaining = 360\<rparr>
   \<and> map_sum id audio_calls (update_clock 3960 (initial_globals 0))
       = Inr [StopSound, PlaySound AUDIO_FINAL False, PlaySound AUDIO_HOUR False]"
proof -
  have st: "get_termina_state 3960 (initial_globals 0)
     = Inr \<lparr>day = 3, hour = 18, total_hours = 66, seconds_remaining = 360\<rparr>"
    by (simp add: eval_defs)
  have "audio_calls (projr (update_clock 3960 (initial_globals 0))) = [StopSound, PlaySound AUDIO_FINAL False, PlaySound AUDIO_HOUR False]"
    unfolding update_clock_value[OF st]
    by (simp add: tick_calls_def py_int_def initial_globals_def)
  then have "map_sum id audio_calls (update_clock 3960 (initial_globals 0))
       = Inr [StopSound, PlaySound AUDIO_FINAL False, PlaySound AUDIO_HOUR False]"
    unfolding update_clock_value[OF st] by simp
  then show ?thesis
    using st by (simp add: spec_FinalNight_def spec_Normal_def)
qed

text \<open>
  C1, amended. On every tick exactly one of the four state conditions holds. A Reset tick
  only stops the sound; a FinalCountdown tick only stops the sound and starts the bells,
  and only if they were not playing; on every other tick the final night music is started
  when the state is FinalNight and it was not playing, and then the chime test runs, in
  the FinalNight state as in the Normal one. The last integer hour is updated on every
  tick that is not in the countdown. So the chime can be started only on a tick whose
  state is Normal or FinalNight.
\<close>

theorem C1_cue_states_amended:
  "\<exists>st r. get_termina_state clock g = Inr st \<and> update_clock clock g = Inr r
     \<and> length (filter id [spec_Reset st, spec_FinalCountdown st, spec_FinalNight st, spec_Normal st]) = 1
     \<and> audio_calls r =
         (if spec_Reset st then [StopSound]
          else if spec_FinalCountdown st
            then (if bells_playing g then [] else [StopSound, PlaySound AUDIO_BELLS (mute_final g)])
          else (if spec_FinalNight st \<and> \<not> final_music_playing g
                then [StopSound, PlaySound AUDIO_FINAL (mute_final g)] else [])
               @ (if py_int (hour st) \<noteq> last_hour_int g \<and> py_int (hour st) \<in> {6, 18}
                  then [PlaySound AUDIO_HOUR (mute_hour g)] else []))
     \<and> last_hour_int (globals_after r)
         = (if spec_FinalCountdown st then last_hour_int g else py_int (hour st))
     \<and> bells_playing (globals_after r) = spec_FinalCountdown st
     \<and> count_starts AUDIO_HOUR (audio_calls r)
         \<le> (if spec_Normal st \<or> spec_FinalNight st then 1 else 0)"
proof -
  obtain st where st: "get_termina_state clock g = Inr st"
    using get_termina_state_total by blast
  note f = gstate_facts[OF st]
  let ?r = "\<lparr>globals_after =
            g\<lparr>last_hour_int :=
                 (if 0 < seconds_remaining st \<and> seconds_remaining st \<le> 300
                  then last_hour_int g else py_int (hour st)),
              final_music_playing :=
                 (seconds_remaining st > 300
                  \<and> (final_music_playing g \<or> day st = 3 \<and> hour st \<ge> 18)),
              bells_playing := (0 < seconds_remaining st \<and> seconds_remaining st \<le> 300)\<rparr>,
          label_text = tick_label st g,
          audio_calls = tick_calls st g\<rparr>"
  have r: "update_clock clock g = Inr ?r" by (rule update_clock_value[OF st])
  have one: "length (filter id [spec_Reset st, spec_FinalCountdown st, spec_FinalNight st, spec_Normal st]) = 1"
    by (auto simp: spec_Reset_def spec_FinalCountdown_def spec_FinalNight_def spec_Normal_def)
  have ended: "py_int (hour st) = 0" if "seconds_remaining st \<le> 0"
    using f(5)[OF that] by (simp add: py_int_def)
  have calls: "tick_calls st g =
         (if spec_Reset st then [StopSound]
          else if spec_FinalCountdown st
            then (if bells_playing g then [] else [StopSound, PlaySound AUDIO_BELLS (mute_final g)])
          else (if spec_FinalNight st \<and> \<not> final_music_playing g
                then [StopSound, PlaySound AUDIO_FINAL (mute_final g)] else [])
               @ (if py_int (hour st) \<noteq> last_hour_int g \<and> py_int (hour st) \<in> {6, 18}
                  then [PlaySound AUDIO_HOUR (mute_hour g)] else []))"
    using ended
    by (auto simp: tick_calls_def spec_Reset_def spec_FinalCountdown_def spec_FinalNight_def)
  have last: "last_hour_int (globals_after ?r)
         = (if spec_FinalCountdown st then last_hour_int g else py_int (hour st))"
    by (simp add: spec_FinalCountdown_def)
  have bells: "bells_playing (globals_after ?r) = spec_FinalCountdown st"
    by (simp add: spec_FinalCountdown_def)
  have chime: "count_starts AUDIO_HOUR (tick_calls st g)
         \<le> (if spec_Normal st \<or> spec_FinalNight st then 1 else 0)"
    unfolding calls
    by (auto simp: count_starts_def track_names_differ spec_Normal_def)
  show ?thesis
    using st r one calls last bells chime
    by (intro exI[of _ st] exI[of _ ?r]) (simp only: tick_result.simps simp_thms)
qed

section \<open>The day/night chime\<close>

lemma tick_last_hour:
  assumes st: "get_termina_state c g = Inr st" and r: "update_clock c g = Inr r"
    and h: "\<lfloor>hour st\<rfloor> = 6 \<or> \<lfloor>hour st\<rfloor> = 18"
  shows "last_hour_int (globals_after r) = \<lfloor>hour st\<rfloor>"
proof -
  have "\<not> (0 < seconds_remaining st \<and> seconds_remaining st \<le> 300)"
  proof
    assume "0 < seconds_remaining st \<and> seconds_remaining st \<le> 300"
    then have "19 \<le> hour st" using gstate_facts(6)[OF st] by blast
    then have "19 \<le> \<lfloor>hour st\<rfloor>" by linarith
    then show False using h by linarith
  qed
  then show ?thesis
    using r unfolding update_clock_value[OF st] by (auto simp: gstate_facts(4)[OF st])
qed

lemma run_quiet:
  assumes "h = 6 \<or> h = 18" and "last_hour_int g = h"
    and "\<forall>c\<in>set cs. \<exists>st. get_termina_state c g = Inr st \<and> \<lfloor>hour st\<rfloor> = h"
  shows "\<exists>g' rs. run_clock cs g = Inr (g', rs) \<and> length rs = length cs
           \<and> (\<forall>r\<in>set rs. count_starts AUDIO_HOUR (audio_calls r) = 0)"
  using assms(2,3)
proof (induction cs arbitrary: g)
  case Nil
  then show ?case by simp
next
  case (Cons c cs)
  from Cons.prems(2) obtain st where st: "get_termina_state c g = Inr st" and fl: "\<lfloor>hour st\<rfloor> = h"
    by auto
  obtain r where r: "update_clock c g = Inr r"
    using update_clock_value[OF st] by blast
  have calls: "audio_calls r = tick_calls st g"
    using r unfolding update_clock_value[OF st] by auto
  have quiet: "count_starts AUDIO_HOUR (audio_calls r) = 0"
    unfolding calls chime_count[OF st] using fl Cons.prems(1) by simp
  have last: "last_hour_int (globals_after r) = h"
    using tick_last_hour[OF st r] fl assms(1) by simp
  have same: "\<forall>c'\<in>set cs. \<exists>st. get_termina_state c' (globals_after r) = Inr st \<and> \<lfloor>hour st\<rfloor> = h"
    using Cons.prems(2) by (simp add: get_termina_state_after[OF r])
  from Cons.IH[OF last same] obtain g' rs where
    "run_clock cs (globals_after r) = Inr (g', rs)" "length rs = length cs"
    "\<forall>r\<in>set rs. count_starts AUDIO_HOUR (audio_calls r) = 0"
    by blast
  then show ?case using r quiet by simp
qed

text \<open>
  C3. A tick starts the chime once if the integer hour differs from the last one seen and
  is 6 or 18, and not at all otherwise. Over consecutive ticks whose integer hour stays at
  6 or at 18, only the first tick can start it, and it does so exactly when the hour was
  not already the last one seen; no later tick of the run starts it again.
\<close>

theorem C3_hour_chime_edge:
  "(\<exists>st r. get_termina_state clock g = Inr st \<and> update_clock clock g = Inr r
      \<and> count_starts AUDIO_HOUR (audio_calls r)
          = (if \<lfloor>hour st\<rfloor> \<noteq> last_hour_int g \<and> \<lfloor>hour st\<rfloor> \<in> {6, 18} then 1 else 0))
   \<and> ((h = 6 \<or> h = 18)
        \<and> (\<forall>c\<in>set (clock # clocks). \<exists>st. get_termina_state c g = Inr st \<and> \<lfloor>hour st\<rfloor> = h)
      \<longrightarrow> (\<exists>g' r rs. run_clock (clock # clocks) g = Inr (g', r # rs)
             \<and> length rs = length clocks
             \<and> count_starts AUDIO_HOUR (audio_calls r) = (if last_hour_int g = h then 0 else 1)
             \<and> (\<forall>r'\<in>set rs. count_starts AUDIO_HOUR (audio_calls r') = 0)))"
proof -
  obtain st where st: "get_termina_state clock g = Inr st"
    using get_termina_state_total by blast
  obtain r where r: "update_clock clock g = Inr r"
    using update_clock_value[OF st] by blast
  have calls: "audio_calls r = tick_calls st g"
    using r unfolding update_clock_value[OF st] by auto
  have one: "count_starts AUDIO_HOUR (audio_calls r)
          = (if \<lfloor>hour st\<rfloor> \<noteq> last_hour_int g \<and> \<lfloor>hour st\<rfloor> \<in> {6, 18} then 1 else 0)"
    unfolding calls by (rule chime_count[OF st])
  have run: "\<exists>g' r rs. run_clock (clock # clocks) g = Inr (g', r # rs)
             \<and> length rs = length clocks
             \<and> count_starts AUDIO_HOUR (audio_calls r) = (if last_hour_int g = h then 0 else 1)
             \<and> (\<forall>r'\<in>set rs. count_starts AUDIO_HOUR (audio_calls r') = 0)"
    if h: "h = 6 \<or> h = 18"
      and all: "\<forall>c\<in>set (clock # clocks). \<exists>st. get_termina_state c g = Inr st \<and> \<lfloor>hour st\<rfloor> = h"
  proof -
    have fl: "\<lfloor>hour st\<rfloor> = h" using all st by simp
    have last: "last_hour_int (globals_after r) = h"
      using tick_last_hour[OF st r] fl h by simp
    have same: "\<forall>c'\<in>set clocks. \<exists>st. get_termina_state c' (globals_after r) = Inr st \<and> \<lfloor>hour st\<rfloor> = h"
      using all by (simp add: get_termina_state_after[OF r])
    from run_quiet[OF h last same] obtain g' rs where
      "run_clock clocks (globals_after r) = Inr (g', rs)" "length rs = length clocks"
      "\<forall>r\<in>set rs. count_starts AUDIO_HOUR (audio_calls r) = 0"
      by blast
    then show ?thesis using r one fl h by auto
  qed
  show ?thesis using st r one run by blast
qed

theorem C3_hour_chime_edge_witness:
  "(\<exists>st r. get_termina_state 360 (initial_globals 0) = Inr st
      \<and> update_clock 360 (initial_globals 0) = Inr r
      \<and> count_starts AUDIO_HOUR (audio_calls r)
          = (if \<lfloor>hour st\<rfloor> \<noteq> last_hour_int (initial_globals 0) \<and> \<lfloor>hour st\<rfloor> \<in> {6, 18}
             then 1 else 0))
   \<and> ((6 :: int) = 6 \<or> (6 :: int) = 18)
   \<and> list_all (\<lambda>c. \<exists>st. get_termina_state c (initial_globals 0) = Inr st \<and> \<lfloor>hour st\<rfloor> = 6)
        [360, 380, 400]
   \<and> (\<exists>g' r rs. run_clock [360, 380, 400] (initial_globals 0) = Inr (g', r # rs)
         \<and> map (\<lambda>r'. count_starts AUDIO_HOUR (audio_calls r')) (r # rs) = [1, 0, 0])"
proof -
  have hyp: "\<forall>c\<in>set [360, 380, 400 :: real].
      \<exists>st. get_termina_state c (initial_globals 0) = Inr st \<and> \<lfloor>hour st\<rfloor> = 6"
    by (simp add: eval_defs)
  have six: "(6 :: int) = 6 \<or> (6 :: int) = 18" by simp
  have first: "last_hour_int (initial_globals 0) \<noteq> 6" by (simp add: initial_globals_def)
  from C3_hour_chime_edge[of 360 "initial_globals 0" 6 "[380, 400]"] six hyp
  obtain st r g' r0 rs where one: "get_termina_state 360 (initial_globals 0) = Inr st"
      "update_clock 360 (initial_globals 0) = Inr r"
      "count_starts AUDIO_HOUR (audio_calls r)
          = (if \<lfloor>hour st\<rfloor> \<noteq> last_hour_int (initial_globals 0) \<and> \<lfloor>hour st\<rfloor> \<in> {6, 18}
             then 1 else 0)"
    and run: "run_clock [360, 380, 400] (initial_globals 0) = Inr (g', r0 # rs)"
      "length rs = length [380, 400 :: real]"
      "count_starts AUDIO_HOUR (audio_calls r0)
          = (if last_hour_int (initial_globals 0) = 6 then 0 else 1)"
      "\<forall>r'\<in>set rs. count_starts AUDIO_HOUR (audio_calls r') = 0"
    by blast
  from run(2) obtain r1 r2 where rs: "rs = [r1, r2]"
    by (cases rs; cases "tl rs"; cases "tl (tl rs)") auto
  have "map (\<lambda>r'. count_starts AUDIO_HOUR (audio_calls r')) (r0 # rs) = [1, 0, 0]"
    using run(3,4) first by (simp add: rs)
  then show ?thesis
    using one run(1) hyp by (auto simp: list_all_iff)
qed

text \<open>
  C10. At launch the last integer hour is -1. Whenever it is -1, the integer hour of the
  tick differs from it, and if that hour is 6 or 18 the tick starts the chime, although no
  hour was crossed.
\<close>

theorem C10_first_tick_chime:
  "last_hour_int (initial_globals launch) = - 1
   \<and> (last_hour_int g = - 1 \<longrightarrow>
        (\<exists>st r. get_termina_state clock g = Inr st \<and> update_clock clock g = Inr r
           \<and> py_int (hour st) \<noteq> last_hour_int g
           \<and> (py_int (hour st) \<in> {6, 18}
                \<longrightarrow> PlaySound AUDIO_HOUR (mute_hour g) \<in> set (audio_calls r))))"
proof -
  have "\<exists>st r. get_termina_state clock g = Inr st \<and> update_clock clock g = Inr r
           \<and> py_int (hour st) \<noteq> last_hour_int g
           \<and> (py_int (hour st) \<in> {6, 18}
                \<longrightarrow> PlaySound AUDIO_HOUR (mute_hour g) \<in> set (audio_calls r))"
    if first: "last_hour_int g = - 1"
  proof -
    obtain st where st: "get_termina_state clock g = Inr st"
      using get_termina_state_total by blast
    note f = gstate_facts[OF st]
    have nn: "0 \<le> py_int (hour st)" using f(2) by (simp add: f(4))
    then have ne: "py_int (hour st) \<noteq> last_hour_int g" using first by simp
    have out: "\<not> (0 < seconds_remaining st \<and> seconds_remaining st \<le> 300)"
      if "py_int (hour st) \<in> {6, 18}"
    proof
      assume "0 < seconds_remaining st \<and> seconds_remaining st \<le> 300"
      then have "19 \<le> hour st" using f(6) by blast
      then have "19 \<le> \<lfloor>hour st\<rfloor>" by linarith
      moreover have "py_int (hour st) = 6 \<or> py_int (hour st) = 18" using that by simp
      ultimately show False using f(4) by linarith
    qed
    have "PlaySound AUDIO_HOUR (mute_hour g) \<in> set (tick_calls st g)"
      if "py_int (hour st) \<in> {6, 18}"
      using out[OF that] that ne by (auto simp: tick_calls_def)
    then show ?thesis
      using st ne unfolding update_clock_value[OF st] by simp
  qed
  then show ?thesis by (simp add: initial_globals_def)
qed

theorem C10_first_tick_chime_witness:
  "last_hour_int (initial_globals 0) = - 1
   \<and> (\<exists>st r. get_termina_state 360 (initial_globals 0) = Inr st
         \<and> update_clock 360 (initial_globals 0) = Inr r
         \<and> py_int (hour st) \<in> {6, 18}
         \<and> PlaySound AUDIO_HOUR (mute_hour (initial_globals 0)) \<in> set (audio_calls r))"
proof -
  have first: "last_hour_int (initial_globals 0) = - 1" by (simp add: initial_globals_def)
  from C10_first_tick_chime[of 0 "initial_globals 0" 360] first
  obtain st r where st: "get_termina_state 360 (initial_globals 0) = Inr st"
    and r: "update_clock 360 (initial_globals 0) = Inr r"
    and imp: "py_int (hour st) \<in> {6, 18}
                \<longrightarrow> PlaySound AUDIO_HOUR (mute_hour (initial_globals 0)) \<in> set (audio_calls r)"
    by blast
  have "get_termina_state 360 (initial_globals 0)
      = Inr \<lparr>day = 1, hour = 6, total_hours = 6, seconds_remaining = 3960\<rparr>"
    by (simp add: eval_defs)
  then have "hour st = 6" using st by simp
  then have h: "py_int (hour st) \<in> {6, 18}" by (simp add: py_int_def)
  show ?thesis using first st r h imp by blast
qed

section \<open>The mute flags\<close>

text \<open>
  C9. Two runs of a tick that differ only in the two mute flags leave the same globals
  (the mute flags apart, so in particular the same three loop variables), show the same
  label, and make the same audio calls up to the mute argument. A muted call reaches the
  mixer with nothing, an unmuted one loads and plays the file.
\<close>

theorem C9_mute_flags_do_not_steer:
  "\<exists>r r'. update_clock clock g = Inr r
     \<and> update_clock clock (g\<lparr>mute_hour := a, mute_final := b\<rparr>) = Inr r'
     \<and> globals_after r' = (globals_after r)\<lparr>mute_hour := a, mute_final := b\<rparr>
     \<and> last_hour_int (globals_after r') = last_hour_int (globals_after r)
     \<and> final_music_playing (globals_after r') = final_music_playing (globals_after r)
     \<and> bells_playing (globals_after r') = bells_playing (globals_after r)
     \<and> label_text r' = label_text r
     \<and> map unmuted (audio_calls r') = map unmuted (audio_calls r)
     \<and> run_call (PlaySound file True) = []
     \<and> run_call (PlaySound file False) = [MusicLoad file, MusicPlay]"
proof -
  let ?g = "g\<lparr>mute_hour := a, mute_final := b\<rparr>"
  obtain st where st: "get_termina_state clock g = Inr st"
    using get_termina_state_total by blast
  have st': "get_termina_state clock ?g = Inr st"
    using st by (simp add: get_termina_state_def get_cycle_length_seconds_def)
  have lbl: "tick_label st ?g = tick_label st g"
    by (simp add: tick_label_def debug_info_of_def)
  have calls: "map unmuted (tick_calls st ?g) = map unmuted (tick_calls st g)"
    by (simp add: tick_calls_def)
  show ?thesis
    unfolding update_clock_value[OF st] update_clock_value[OF st']
    by (simp add: lbl calls play_sound_def)
qed

section \<open>Runs of the loop and the final countdown\<close>

lemma tick_keeps_settings:
  assumes "update_clock c g = Inr r"
  shows "get_termina_state c' (globals_after r) = get_termina_state c' g"
    and "mute_final (globals_after r) = mute_final g"
proof -
  obtain st where st: "get_termina_state c g = Inr st"
    using get_termina_state_total by blast
  show "get_termina_state c' (globals_after r) = get_termina_state c' g"
    using assms by (rule get_termina_state_after)
  show "mute_final (globals_after r) = mute_final g"
    using assms unfolding update_clock_value[OF st] by auto
qed

lemma update_clock_total: "\<exists>r. update_clock c g = Inr r"
  using get_termina_state_total[of c g] update_clock_value by blast

lemma run_clock_total:
  "\<exists>g' rs. run_clock cs g = Inr (g', rs) \<and> length rs = length cs
     \<and> (\<forall>c. get_termina_state c g' = get_termina_state c g) \<and> mute_final g' = mute_final g"
proof (induction cs arbitrary: g)
  case Nil
  then show ?case by simp
next
  case (Cons c cs)
  obtain r where r: "update_clock c g = Inr r" using update_clock_total by blast
  from Cons.IH[of "globals_after r"] obtain g' rs where
    run: "run_clock cs (globals_after r) = Inr (g', rs)" "length rs = length cs"
      "\<forall>c. get_termina_state c g' = get_termina_state c (globals_after r)"
      "mute_final g' = mute_final (globals_after r)"
    by blast
  show ?case
    using r run by (simp add: tick_keeps_settings[OF r])
qed

lemma run_clock_append:
  assumes "run_clock xs g = Inr (g1, rs1)" and "run_clock ys g1 = Inr (g2, rs2)"
  shows "run_clock (xs @ ys) g = Inr (g2, rs1 @ rs2)"
  using assms
proof (induction xs arbitrary: g rs1)
  case Nil
  then show ?case by simp
next
  case (Cons c xs)
  obtain r where r: "update_clock c g = Inr r" using update_clock_total by blast
  obtain ga rs where t: "run_clock xs (globals_after r) = Inr (ga, rs)"
    using run_clock_total by blast
  have eq: "g1 = ga" "rs1 = r # rs" using Cons.prems(1) r t by simp_all
  have "run_clock (xs @ ys) (globals_after r) = Inr (g2, rs @ rs2)"
    using Cons.IH[OF _ Cons.prems(2)] t eq by simp
  then show ?case using r eq by simp
qed

lemma window_tick:
  assumes st: "get_termina_state c g = Inr st"
    and win: "0 < seconds_remaining st" "seconds_remaining st \<le> 300"
    and r: "update_clock c g = Inr r"
  shows "audio_calls r
           = (if bells_playing g then [] else [StopSound, PlaySound AUDIO_BELLS (mute_final g)])"
    and "bells_playing (globals_after r)"
  using r win unfolding update_clock_value[OF st] by (auto simp: tick_calls_def)

lemma outside_tick:
  assumes st: "get_termina_state c g = Inr st"
    and out: "\<not> (0 < seconds_remaining st \<and> seconds_remaining st \<le> 300)"
    and r: "update_clock c g = Inr r"
  shows "\<not> bells_playing (globals_after r)"
  using r out unfolding update_clock_value[OF st] by auto

lemma ended_tick:
  assumes st: "get_termina_state c g = Inr st"
    and ended: "seconds_remaining st \<le> 0"
    and r: "update_clock c g = Inr r"
  shows "audio_calls r = [StopSound]"
    and "\<not> bells_playing (globals_after r)" and "\<not> final_music_playing (globals_after r)"
proof -
  have "hour st = 0" using gstate_facts(5)[OF st ended] .
  then have h: "py_int (hour st) = 0" by (simp add: py_int_def)
  show "audio_calls r = [StopSound]"
    using r ended unfolding update_clock_value[OF st] by (auto simp: tick_calls_def h)
  show "\<not> bells_playing (globals_after r)" "\<not> final_music_playing (globals_after r)"
    using r ended unfolding update_clock_value[OF st] by auto
qed

lemma run_in_window:
  assumes "bells_playing g"
    and "\<forall>c\<in>set cs. \<exists>st. get_termina_state c g = Inr st
            \<and> 0 < seconds_remaining st \<and> seconds_remaining st \<le> 300"
  shows "\<exists>g' rs. run_clock cs g = Inr (g', rs) \<and> length rs = length cs \<and> bells_playing g'
           \<and> (\<forall>r\<in>set rs. audio_calls r = [] \<and> bells_playing (globals_after r))"
  using assms
proof (induction cs arbitrary: g)
  case Nil
  then show ?case by simp
next
  case (Cons c cs)
  from Cons.prems(2) obtain st where st: "get_termina_state c g = Inr st"
    and win: "0 < seconds_remaining st" "seconds_remaining st \<le> 300"
    by auto
  obtain r where r: "update_clock c g = Inr r" using update_clock_total by blast
  have calls: "audio_calls r = []" and on: "bells_playing (globals_after r)"
    using window_tick[OF st win r] Cons.prems(1) by simp_all
  have same: "\<forall>c'\<in>set cs. \<exists>st. get_termina_state c' (globals_after r) = Inr st
            \<and> 0 < seconds_remaining st \<and> seconds_remaining st \<le> 300"
    using Cons.prems(2) by (simp add: tick_keeps_settings(1)[OF r])
  from Cons.IH[OF on same] obtain g' rs where
    "run_clock cs (globals_after r) = Inr (g', rs)" "length rs = length cs" "bells_playing g'"
    "\<forall>r\<in>set rs. audio_calls r = [] \<and> bells_playing (globals_after r)"
    by blast
  then show ?case using r calls on by simp
qed

lemma run_then_outside:
  assumes "pre \<noteq> []"
    and "\<exists>st. get_termina_state (last pre) g = Inr st
            \<and> \<not> (0 < seconds_remaining st \<and> seconds_remaining st \<le> 300)"
    and "run_clock pre g = Inr (g1, rs)"
  shows "\<not> bells_playing g1"
proof -
  obtain xs c where pre: "pre = xs @ [c]"
    using assms(1) by (metis append_butlast_last_id)
  obtain ga ra where a: "run_clock xs g = Inr (ga, ra)"
      and same: "\<forall>c. get_termina_state c ga = get_termina_state c g"
    using run_clock_total by blast
  obtain r where r: "update_clock c ga = Inr r" using update_clock_total by blast
  have "run_clock [c] ga = Inr (globals_after r, [r])" using r by simp
  from run_clock_append[OF a this] have "g1 = globals_after r"
    using assms(3) pre by simp
  moreover from assms(2) obtain st where "get_termina_state c ga = Inr st"
      "\<not> (0 < seconds_remaining st \<and> seconds_remaining st \<le> 300)"
    using pre same by auto
  ultimately show ?thesis using outside_tick r by blast
qed

text \<open>
  C2. Take a run of ticks that enters the last five minutes (either it starts there with
  the bells off, as at launch, or the tick before was outside the window), stays there
  for one or more ticks, and then reaches the end of the cycle. The tick that enters
  stops the sound and starts the bells, once, and sets \<open>bells_playing\<close>; the later ticks
  in the window make no audio call at all; the tick at the end of the cycle makes exactly
  one call, the stop, and leaves \<open>bells_playing\<close> and \<open>final_music_playing\<close> false.
\<close>

theorem C2_bells_once_per_window:
  assumes entry: "pre = [] \<and> \<not> bells_playing g
      \<or> pre \<noteq> [] \<and> (\<exists>st. get_termina_state (last pre) g = Inr st
            \<and> \<not> (0 < seconds_remaining st \<and> seconds_remaining st \<le> 300))"
    and window: "\<forall>c\<in>set (c_in # cs). \<exists>st. get_termina_state c g = Inr st
            \<and> 0 < seconds_remaining st \<and> seconds_remaining st \<le> 300"
    and ended: "\<exists>st. get_termina_state c_end g = Inr st \<and> seconds_remaining st \<le> 0"
  shows "\<exists>g' rs_pre r_in rs_in r_end.
      run_clock (pre @ c_in # cs @ [c_end]) g = Inr (g', rs_pre @ r_in # rs_in @ [r_end])
      \<and> length rs_pre = length pre \<and> length rs_in = length cs
      \<and> audio_calls r_in = [StopSound, PlaySound AUDIO_BELLS (mute_final g)]
      \<and> bells_playing (globals_after r_in)
      \<and> (\<forall>r\<in>set rs_in. audio_calls r = [] \<and> bells_playing (globals_after r))
      \<and> audio_calls r_end = [StopSound]
      \<and> g' = globals_after r_end
      \<and> \<not> bells_playing g' \<and> \<not> final_music_playing g'"
proof -
  obtain g1 rs_pre where pre: "run_clock pre g = Inr (g1, rs_pre)" "length rs_pre = length pre"
      and same1: "\<forall>c. get_termina_state c g1 = get_termina_state c g"
      and mute1: "mute_final g1 = mute_final g"
    using run_clock_total by blast
  have off: "\<not> bells_playing g1"
    using entry
  proof
    assume "pre = [] \<and> \<not> bells_playing g"
    then show ?thesis using pre(1) by simp
  next
    assume "pre \<noteq> [] \<and> (\<exists>st. get_termina_state (last pre) g = Inr st
            \<and> \<not> (0 < seconds_remaining st \<and> seconds_remaining st \<le> 300))"
    then show ?thesis using run_then_outside pre(1) by blast
  qed
  from window same1 obtain st_in where st_in: "get_termina_state c_in g1 = Inr st_in"
      and win: "0 < seconds_remaining st_in" "seconds_remaining st_in \<le> 300"
    by auto
  obtain r_in where r_in: "update_clock c_in g1 = Inr r_in" using update_clock_total by blast
  have calls_in: "audio_calls r_in = [StopSound, PlaySound AUDIO_BELLS (mute_final g)]"
    and on: "bells_playing (globals_after r_in)"
    using window_tick[OF st_in win r_in] off mute1 by simp_all
  let ?g2 = "globals_after r_in"
  have same2: "\<forall>c. get_termina_state c ?g2 = get_termina_state c g"
    using same1 by (simp add: tick_keeps_settings(1)[OF r_in])
  have "\<forall>c\<in>set cs. \<exists>st. get_termina_state c ?g2 = Inr st
            \<and> 0 < seconds_remaining st \<and> seconds_remaining st \<le> 300"
    using window same2 by simp
  from run_in_window[OF on this] obtain g3 rs_in where
    rest: "run_clock cs ?g2 = Inr (g3, rs_in)" "length rs_in = length cs"
      "\<forall>r\<in>set rs_in. audio_calls r = [] \<and> bells_playing (globals_after r)"
    by blast
  obtain g3' rs' where "run_clock cs ?g2 = Inr (g3', rs')"
      and same3': "\<forall>c. get_termina_state c g3' = get_termina_state c ?g2"
    using run_clock_total by blast
  then have same3: "\<forall>c. get_termina_state c g3 = get_termina_state c g"
    using rest(1) same2 by simp
  from ended same3 obtain st_end where st_end: "get_termina_state c_end g3 = Inr st_end"
      and over: "seconds_remaining st_end \<le> 0"
    by auto
  obtain r_end where r_end: "update_clock c_end g3 = Inr r_end"
    using update_clock_total by blast
  note fin = ended_tick[OF st_end over r_end]
  have last: "run_clock [c_end] g3 = Inr (globals_after r_end, [r_end])"
    using r_end by simp
  have "run_clock (cs @ [c_end]) ?g2 = Inr (globals_after r_end, rs_in @ [r_end])"
    by (rule run_clock_append[OF rest(1) last])
  then have "run_clock (c_in # cs @ [c_end]) g1 = Inr (globals_after r_end, r_in # rs_in @ [r_end])"
    using r_in by simp
  from run_clock_append[OF pre(1) this]
  have "run_clock (pre @ c_in # cs @ [c_end]) g
      = Inr (globals_after r_end, rs_pre @ r_in # rs_in @ [r_end])" .
  then show ?thesis
    using pre(2) rest(2,3) calls_in on fin by blast
qed

theorem C2_bells_once_per_window_witness:
  "(([4000 :: real] = [] \<and> \<not> bells_playing (initial_globals 0))
      \<or> [4000 :: real] \<noteq> [] \<and> (\<exists>st. get_termina_state (last [4000]) (initial_globals 0) = Inr st
            \<and> \<not> (0 < seconds_remaining st \<and> seconds_remaining st \<le> 300)))
   \<and> list_all (\<lambda>c. \<exists>st. get_termina_state c (initial_globals 0) = Inr st
            \<and> 0 < seconds_remaining st \<and> seconds_remaining st \<le> 300) [4070, 4100, 4200]
   \<and> (\<exists>st. get_termina_state 4320 (initial_globals 0) = Inr st \<and> seconds_remaining st \<le> 0)
   \<and> (\<exists>g' rs_pre r_in rs_in r_end.
        run_clock [4000, 4070, 4100, 4200, 4320] (initial_globals 0)
          = Inr (g', rs_pre @ r_in # rs_in @ [r_end])
        \<and> length rs_pre = length [4000 :: real] \<and> length rs_in = length [4100, 4200 :: real]
        \<and> audio_calls r_in = [StopSound, PlaySound AUDIO_BELLS (mute_final (initial_globals 0))]
        \<and> bells_playing (globals_after r_in)
        \<and> list_all (\<lambda>r. audio_calls r = [] \<and> bells_playing (globals_after r)) rs_in
        \<and> audio_calls r_end = [StopSound]
        \<and> g' = globals_after r_end
        \<and> \<not> bells_playing g' \<and> \<not> final_music_playing g')"
proof -
  have entry: "([4000 :: real] = [] \<and> \<not> bells_playing (initial_globals 0))
      \<or> [4000 :: real] \<noteq> [] \<and> (\<exists>st. get_termina_state (last [4000]) (initial_globals 0) = Inr st
            \<and> \<not> (0 < seconds_remaining st \<and> seconds_remaining st \<le> 300))"
    by (simp add: eval_defs)
  have window: "\<forall>c\<in>set (4070 # [4100, 4200 :: real]). \<exists>st. get_termina_state c (initial_globals 0) = Inr st
            \<and> 0 < seconds_remaining st \<and> seconds_remaining st \<le> 300"
    by (simp add: eval_defs)
  have ended: "\<exists>st. get_termina_state 4320 (initial_globals 0) = Inr st \<and> seconds_remaining st \<le> 0"
    by (simp add: eval_defs)
  have run: "[4000] @ 4070 # [4100, 4200] @ [4320] = [4000, 4070, 4100, 4200, 4320 :: real]"
    by simp
  show ?thesis
    unfolding list_all_iff
    using C2_bells_once_per_window[OF entry window ended, unfolded run] entry window ended
    by blast
qed

section \<open>Point evaluations and the 72-minute scenario\<close>

lemmas text_defs = tick_label_def countdown_text_def debug_info_of_def format_0d_def str_int_def
  newline_def

lemma get_termina_state_loop_vars:
  "get_termina_state c (g\<lparr>last_hour_int := l\<rparr>) = get_termina_state c g"
  "get_termina_state c (g\<lparr>final_music_playing := f\<rparr>) = get_termina_state c g"
  "get_termina_state c (g\<lparr>bells_playing := b\<rparr>) = get_termina_state c g"
  by (simp_all add: get_termina_state_def get_cycle_length_seconds_def)

lemma scenario_states:
  "get_termina_state T0 (initial_globals T0)
     = Inr \<lparr>day = 1, hour = 0, total_hours = 0, seconds_remaining = 4320\<rparr>"
  "get_termina_state (T0 + 2160) (initial_globals T0)
     = Inr \<lparr>day = 2, hour = 12, total_hours = 36, seconds_remaining = 2160\<rparr>"
  "get_termina_state (T0 + 4070) (initial_globals T0)
     = Inr \<lparr>day = 3, hour = 119 / 6, total_hours = 407 / 6, seconds_remaining = 250\<rparr>"
  "get_termina_state (T0 + 4320) (initial_globals T0)
     = Inr \<lparr>day = 3, hour = 0, total_hours = 72, seconds_remaining = 0\<rparr>"
  by (simp_all add: eval_defs)

lemma scenario_ticks:
  fixes T0 :: real
  defines "g0 \<equiv> initial_globals T0"
  defines "g1 \<equiv> g0\<lparr>last_hour_int := 0\<rparr>"
  defines "g2 \<equiv> g0\<lparr>last_hour_int := 12\<rparr>"
  defines "g3 \<equiv> g0\<lparr>last_hour_int := 12, bells_playing := True\<rparr>"
  shows "update_clock T0 g0 = Inr \<lparr>globals_after = g1,
      label_text = ''Day 1'' @ newline @ ''00:00 Termina'', audio_calls = []\<rparr>"
    and "update_clock (T0 + 2160) g1 = Inr \<lparr>globals_after = g2,
      label_text = ''Day 2'' @ newline @ ''12:00 Termina'', audio_calls = []\<rparr>"
    and "update_clock (T0 + 4070) g2 = Inr \<lparr>globals_after = g3,
      label_text = ''FINAL HOURS'' @ newline @ ''250.000 seconds remain'',
      audio_calls = [StopSound, PlaySound AUDIO_BELLS False]\<rparr>"
    and "update_clock (T0 + 4320) g3 = Inr \<lparr>globals_after = g1,
      label_text = ''DAWN OF A NEW DAY'', audio_calls = [StopSound]\<rparr>"
proof -
  note s = scenario_states[of T0, folded g0_def]
  have s1: "get_termina_state (T0 + 2160) g1
     = Inr \<lparr>day = 2, hour = 12, total_hours = 36, seconds_remaining = 2160\<rparr>"
    unfolding g1_def get_termina_state_loop_vars by (rule s(2))
  have s2: "get_termina_state (T0 + 4070) g2
     = Inr \<lparr>day = 3, hour = 119 / 6, total_hours = 407 / 6, seconds_remaining = 250\<rparr>"
    unfolding g2_def get_termina_state_loop_vars by (rule s(3))
  have s3: "get_termina_state (T0 + 4320) g3
     = Inr \<lparr>day = 3, hour = 0, total_hours = 72, seconds_remaining = 0\<rparr>"
    unfolding g3_def get_termina_state_loop_vars by (rule s(4))
  show "update_clock T0 g0 = Inr \<lparr>globals_after = g1,
      label_text = ''Day 1'' @ newline @ ''00:00 Termina'', audio_calls = []\<rparr>"
    unfolding update_clock_value[OF s(1)]
    apply (simp add: tick_calls_def text_defs py_int_def g0_def g1_def initial_globals_def)
    apply code_simp
    done
  show "update_clock (T0 + 2160) g1 = Inr \<lparr>globals_after = g2,
      label_text = ''Day 2'' @ newline @ ''12:00 Termina'', audio_calls = []\<rparr>"
    unfolding update_clock_value[OF s1]
    apply (simp add: tick_calls_def text_defs py_int_def g0_def g1_def g2_def initial_globals_def)
    apply code_simp
    done
  show "update_clock (T0 + 4070) g2 = Inr \<lparr>globals_after = g3,
      label_text = ''FINAL HOURS'' @ newline @ ''250.000 seconds remain'',
      audio_calls = [StopSound, PlaySound AUDIO_BELLS False]\<rparr>"
    unfolding update_clock_value[OF s2]
    apply (simp add: tick_calls_def text_defs py_int_def g0_def g2_def g3_def initial_globals_def)
    apply code_simp
    done
  show "update_clock (T0 + 4320) g3 = Inr \<lparr>globals_after = g1,
      label_text = ''DAWN OF A NEW DAY'', audio_calls = [StopSound]\<rparr>"
    unfolding update_clock_value[OF s3]
    by (simp add: tick_calls_def text_defs py_int_def g0_def g1_def g3_def initial_globals_def)
qed

text \<open>
  C6. For a positive cycle length, one cycle before the epoch the progress is 0, the day
  1 and the hour 0; at the epoch no seconds remain, the day is 3 and the hour is below
  24. In the 72-minute cycle that starts at \<open>T0\<close>: at \<open>T0\<close> it is day 1, hour 0; at
  \<open>T0 + 2160\<close> day 2, hour 12, 36 total hours; at \<open>T0 + 4070\<close> 250 seconds remain, the
  state is the final countdown and the tick starts the bells once; at \<open>T0 + 4320\<close> the
  state is the reset, the tick stops the sound and the label shows the end of the cycle.
\<close>

theorem C6_point_evaluations:
  "(0 < L \<longrightarrow>
      cycle_progress L L = Inr 0
      \<and> termina_state_of (e - L - off) e L off
          = Inr \<lparr>day = 1, hour = 0, total_hours = 0, seconds_remaining = L\<rparr>
      \<and> (\<exists>st. termina_state_of (e - off) e L off = Inr st
            \<and> seconds_remaining st = 0 \<and> day st = 3 \<and> hour st < 24))
   \<and> get_termina_state T0 (initial_globals T0)
       = Inr \<lparr>day = 1, hour = 0, total_hours = 0, seconds_remaining = 4320\<rparr>
   \<and> get_termina_state (T0 + 2160) (initial_globals T0)
       = Inr \<lparr>day = 2, hour = 12, total_hours = 36, seconds_remaining = 2160\<rparr>
   \<and> (\<exists>st. get_termina_state (T0 + 4070) (initial_globals T0) = Inr st
         \<and> seconds_remaining st = 250 \<and> spec_FinalCountdown st)
   \<and> (\<exists>st. get_termina_state (T0 + 4320) (initial_globals T0) = Inr st \<and> spec_Reset st)
   \<and> (\<exists>g' r0 r1 r2 r3.
         run_clock [T0, T0 + 2160, T0 + 4070, T0 + 4320] (initial_globals T0)
           = Inr (g', [r0, r1, r2, r3])
         \<and> audio_calls r2 = [StopSound, PlaySound AUDIO_BELLS False]
         \<and> count_starts AUDIO_BELLS (audio_calls r2) = 1
         \<and> bells_playing (globals_after r2)
         \<and> audio_calls r3 = [StopSound]
         \<and> label_text r3 = ''DAWN OF A NEW DAY''
         \<and> \<not> bells_playing g' \<and> \<not> final_music_playing g')"
proof -
  have general: "cycle_progress L L = Inr 0
      \<and> termina_state_of (e - L - off) e L off
          = Inr \<lparr>day = 1, hour = 0, total_hours = 0, seconds_remaining = L\<rparr>
      \<and> (\<exists>st. termina_state_of (e - off) e L off = Inr st
            \<and> seconds_remaining st = 0 \<and> day st = 3 \<and> hour st < 24)"
    if L: "0 < L"
  proof -
    have p0: "cycle_progress L L = Inr 0" using L by (simp add: cycle_progress_value)
    have "max 0 (e - (e - L - off + off)) = L" using L by simp
    then have "cycle_progress (max 0 (e - (e - L - off + off))) L = Inr 0" using p0 by simp
    from termina_state_of_value[OF this]
    have start: "termina_state_of (e - L - off) e L off
          = Inr \<lparr>day = 1, hour = 0, total_hours = 0, seconds_remaining = L\<rparr>"
      using L by simp
    have "cycle_progress (max 0 (e - (e - off + off))) L = Inr 1"
      using L by (simp add: cycle_progress_value)
    from termina_state_of_value[OF this]
    have "termina_state_of (e - off) e L off
          = Inr \<lparr>day = 3, hour = 0, total_hours = 72, seconds_remaining = 0\<rparr>"
      by simp
    then show ?thesis using p0 start by simp
  qed
  note s = scenario_states[of T0]
  note t = scenario_ticks[of T0]
  have run: "run_clock [T0, T0 + 2160, T0 + 4070, T0 + 4320] (initial_globals T0)
      = Inr ((initial_globals T0)\<lparr>last_hour_int := 0\<rparr>,
          [\<lparr>globals_after = (initial_globals T0)\<lparr>last_hour_int := 0\<rparr>,
            label_text = ''Day 1'' @ newline @ ''00:00 Termina'', audio_calls = []\<rparr>,
           \<lparr>globals_after = (initial_globals T0)\<lparr>last_hour_int := 12\<rparr>,
            label_text = ''Day 2'' @ newline @ ''12:00 Termina'', audio_calls = []\<rparr>,
           \<lparr>globals_after = (initial_globals T0)\<lparr>last_hour_int := 12, bells_playing := True\<rparr>,
            label_text = ''FINAL HOURS'' @ newline @ ''250.000 seconds remain'',
            audio_calls = [StopSound, PlaySound AUDIO_BELLS False]\<rparr>,
           \<lparr>globals_after = (initial_globals T0)\<lparr>last_hour_int := 0\<rparr>,
            label_text = ''DAWN OF A NEW DAY'', audio_calls = [StopSound]\<rparr>])"
    by (simp only: run_clock.simps t sum.case tick_result.simps prod.case)
  have flags: "\<not> bells_playing ((initial_globals T0)\<lparr>last_hour_int := 0\<rparr>)"
    "\<not> final_music_playing ((initial_globals T0)\<lparr>last_hour_int := 0\<rparr>)"
    by (simp_all add: initial_globals_def)
  have scen: "\<exists>g' r0 r1 r2 r3.
         run_clock [T0, T0 + 2160, T0 + 4070, T0 + 4320] (initial_globals T0)
           = Inr (g', [r0, r1, r2, r3])
         \<and> audio_calls r2 = [StopSound, PlaySound AUDIO_BELLS False]
         \<and> count_starts AUDIO_BELLS (audio_calls r2) = 1
         \<and> bells_playing (globals_after r2)
         \<and> audio_calls r3 = [StopSound]
         \<and> label_text r3 = ''DAWN OF A NEW DAY''
         \<and> \<not> bells_playing g' \<and> \<not> final_music_playing g'"
    unfolding run using flags by (simp add: count_starts_def)
  show ?thesis
    using general s scen by (simp add: spec_FinalCountdown_def spec_Reset_def)
qed

theorem C6_point_evaluations_witness:
  "(0 :: real) < 4320
   \<and> cycle_progress 4320 4320 = Inr 0
   \<and> termina_state_of (5000 - 4320 - 7) 5000 4320 7
       = Inr \<lparr>day = 1, hour = 0, total_hours = 0, seconds_remaining = 4320\<rparr>
   \<and> (\<exists>st. termina_state_of (5000 - 7) 5000 4320 7 = Inr st
         \<and> seconds_remaining st = 0 \<and> day st = 3 \<and> hour st < 24)"
  using C6_point_evaluations[of 4320 5000 7 0] by simp

section \<open>Saving the settings\<close>

lemmas settings_defs = save_settings_def save_epoch_entry_def save_debug_offset_def
  set_epoch_end_def set_debug_time_offset_def

lemmas demo_defs = demo_env_def decimal_float_def decimal_int_def demo_timestamp_def
  py_strip_def is_space_def parse_hh_mm_def initial_globals_def

text \<open>
  C8, as stated, fails. The claim says that every malformed time-of-day or offset string
  that is saved is reported. An entry that is blank once stripped is no time of day and
  no number (the parsers reject it), yet \<open>save_settings\<close> tests \<open>if t:\<close> before it parses
  and skips a blank entry silently: with both entries blank nothing is printed.
\<close>

theorem C8_counterexample:
  "parse_hh_mm (int_of_str demo_env) (py_strip '' '') = Inl ValueError
   \<and> float_of_str demo_env (py_strip '''') = None
   \<and> save_settings demo_env
        \<lparr>epoch_entry = '' '', cycle_var = ''72min'', hour_var = False, final_var = False,
         seconds_var = False, dark_var = False, debug_var = False, debug_offset_entry = ''''\<rparr>
        (initial_globals 0)
       = (initial_globals 0, [])"
  by (simp add: settings_defs demo_defs)

text \<open>
  C8, amended. The three loop variables are never touched by \<open>save_settings\<close>. An epoch
  entry that is not blank once stripped and that the parsing or the range check rejects
  is reported and leaves the epoch unchanged; an offset entry that is not blank once
  stripped and that \<open>float\<close> rejects is reported and leaves the debug offset unchanged.
  A blank entry is skipped: nothing is reported for it, and its value is unchanged.
\<close>

theorem C8_malformed_entries_amended:
  "\<exists>g' log. save_settings env form g = (g', log)
     \<and> last_hour_int g' = last_hour_int g
     \<and> final_music_playing g' = final_music_playing g
     \<and> bells_playing g' = bells_playing g
     \<and> (py_strip (epoch_entry form) \<noteq> []
          \<and> isl (parse_hh_mm (int_of_str env) (py_strip (epoch_entry form)))
        \<longrightarrow> InvalidTimeFormat (py_strip (epoch_entry form)) \<in> set log
            \<and> epoch_end_timestamp g' = epoch_end_timestamp g)
     \<and> (py_strip (epoch_entry form) = []
        \<longrightarrow> (\<forall>s. InvalidTimeFormat s \<notin> set log)
            \<and> epoch_end_timestamp g' = epoch_end_timestamp g)
     \<and> (py_strip (debug_offset_entry form) \<noteq> []
          \<and> float_of_str env (py_strip (debug_offset_entry form)) = None
        \<longrightarrow> InvalidDebugOffset (py_strip (debug_offset_entry form)) \<in> set log
            \<and> debug_time_offset g' = debug_time_offset g)
     \<and> (py_strip (debug_offset_entry form) = []
        \<longrightarrow> (\<forall>s. InvalidDebugOffset s \<notin> set log)
            \<and> debug_time_offset g' = debug_time_offset g)"
  by (auto simp: settings_defs Let_def split: sum.splits option.splits prod.splits)

theorem C8_malformed_entries_amended_witness:
  "py_strip '' 25:61 '' \<noteq> []
   \<and> isl (parse_hh_mm (int_of_str demo_env) (py_strip '' 25:61 ''))
   \<and> py_strip ''abc'' \<noteq> []
   \<and> float_of_str demo_env (py_strip ''abc'') = None
   \<and> (\<exists>g' log. save_settings demo_env
          \<lparr>epoch_entry = '' 25:61 '', cycle_var = ''72min'', hour_var = False, final_var = False,
           seconds_var = False, dark_var = False, debug_var = False, debug_offset_entry = ''abc''\<rparr>
          (initial_globals 0) = (g', log)
        \<and> InvalidTimeFormat ''25:61'' \<in> set log
        \<and> epoch_end_timestamp g' = epoch_end_timestamp (initial_globals 0)
        \<and> InvalidDebugOffset ''abc'' \<in> set log
        \<and> debug_time_offset g' = debug_time_offset (initial_globals 0))
   \<and> py_strip '' '' = [] \<and> py_strip '''' = []
   \<and> (\<exists>g' log. save_settings demo_env
          \<lparr>epoch_entry = '' '', cycle_var = ''72min'', hour_var = False, final_var = False,
           seconds_var = False, dark_var = False, debug_var = False, debug_offset_entry = ''''\<rparr>
          (initial_globals 0) = (g', log)
        \<and> epoch_end_timestamp g' = epoch_end_timestamp (initial_globals 0)
        \<and> debug_time_offset g' = debug_time_offset (initial_globals 0))"
proof -
  let ?bad = "\<lparr>epoch_entry = '' 25:61 '', cycle_var = ''72min'', hour_var = False, final_var = False,
           seconds_var = False, dark_var = False, debug_var = False, debug_offset_entry = ''abc''\<rparr>"
  let ?blank = "\<lparr>epoch_entry = '' '', cycle_var = ''72min'', hour_var = False, final_var = False,
           seconds_var = False, dark_var = False, debug_var = False, debug_offset_entry = ''''\<rparr>"
  have s1: "py_strip '' 25:61 '' = ''25:61''" and s2: "py_strip ''abc'' = ''abc''"
    and s3: "py_strip '' '' = []" and s4: "py_strip '''' = []"
    by (simp_all add: py_strip_def is_space_def)
  have p: "isl (parse_hh_mm (int_of_str demo_env) ''25:61'')"
    by (simp add: demo_defs)
  have f: "float_of_str demo_env ''abc'' = None"
    by (simp add: demo_defs)
  have a: "\<exists>g' log. save_settings demo_env ?bad (initial_globals 0) = (g', log)
        \<and> InvalidTimeFormat ''25:61'' \<in> set log
        \<and> epoch_end_timestamp g' = epoch_end_timestamp (initial_globals 0)
        \<and> InvalidDebugOffset ''abc'' \<in> set log
        \<and> debug_time_offset g' = debug_time_offset (initial_globals 0)"
    using C8_malformed_entries_amended[of demo_env ?bad "initial_globals 0"] p f
    by (simp add: s1 s2, blast)
  have b: "\<exists>g' log. save_settings demo_env ?blank (initial_globals 0) = (g', log)
        \<and> epoch_end_timestamp g' = epoch_end_timestamp (initial_globals 0)
        \<and> debug_time_offset g' = debug_time_offset (initial_globals 0)"
    using C8_malformed_entries_amended[of demo_env ?blank "initial_globals 0"]
    by (simp add: s3 s4, blast)
  show ?thesis using a b p f by (simp add: s1 s2 s3 s4)
qed

end
